theory Spec2Isabelle
  imports Complex_Main "HOL-Library.Sublist"
begin

section \<open>The colour server of \<open>src/app.js\<close>\<close>

text \<open>
  The program is one HTTP request handler over a fixed colour registry and a JSON file
  of animal records. The handler is modelled as a function from the request and the
  environment it consults (the outcome of reading and parsing \<open>files/animals.json\<close>,
  and the value drawn by \<open>Math.random()\<close>) to the response it writes.

  Strings are byte lists (the UTF-8 text that goes over the wire). \<open>toLowerCase\<close> and
  \<open>trim\<close> are modelled on the ASCII range: bytes from 128 up are left as they are, so
  the model is exact for ASCII text and does not fold the case of non-ASCII letters or
  strip non-ASCII white space.
\<close>

subsection \<open>The colour registry (lines 6 to 22)\<close>

record color =
  variant :: string
  hex :: string

definition colors :: "color list" where
  "colors =
    [\<lparr>variant = ''Vermillion'', hex = ''#2E191B''\<rparr>,
     \<lparr>variant = ''Forest'', hex = ''#0B6623''\<rparr>,
     \<lparr>variant = ''Navy'', hex = ''#000080''\<rparr>,
     \<lparr>variant = ''Crimson'', hex = ''#DC143C''\<rparr>,
     \<lparr>variant = ''Sky Blue'', hex = ''#87CEEB''\<rparr>,
     \<lparr>variant = ''Lime'', hex = ''#00FF00''\<rparr>,
     \<lparr>variant = ''Gold'', hex = ''#FFD700''\<rparr>,
     \<lparr>variant = ''Lavender'', hex = ''#E6E6FA''\<rparr>,
     \<lparr>variant = ''Tangerine'', hex = ''#F28500''\<rparr>,
     \<lparr>variant = ''Magenta'', hex = ''#FF00FF''\<rparr>,
     \<lparr>variant = ''Cyan'', hex = ''#00FFFF''\<rparr>,
     \<lparr>variant = ''Olive'', hex = ''#808000''\<rparr>,
     \<lparr>variant = ''Teal'', hex = ''#008080''\<rparr>,
     \<lparr>variant = ''Maroon'', hex = ''#800000''\<rparr>,
     \<lparr>variant = ''Coral'', hex = ''#FF7F50''\<rparr>]"

subsection \<open>String primitives of the runtime\<close>

definition lowerChar :: "char \<Rightarrow> char" where
  "lowerChar c =
     (case map_of (zip ''ABCDEFGHIJKLMNOPQRSTUVWXYZ'' ''abcdefghijklmnopqrstuvwxyz'') c of
        Some d \<Rightarrow> d
      | None \<Rightarrow> c)"

definition toLowerCase :: "string \<Rightarrow> string" where
  "toLowerCase s = map lowerChar s"

text \<open>Tab, line feed, vertical tab, form feed, carriage return and space.\<close>

definition isWhiteSpace :: "char \<Rightarrow> bool" where
  "isWhiteSpace c \<longleftrightarrow> c \<in> set [CHR 0x09, CHR 0x0A, CHR 0x0B, CHR 0x0C, CHR 0x0D, CHR 0x20]"

definition trim :: "string \<Rightarrow> string" where
  "trim s = rev (dropWhile isWhiteSpace (rev (dropWhile isWhiteSpace s)))"

text \<open>\<open>Array.prototype.join\<close> on strings.\<close>

fun join :: "string \<Rightarrow> string list \<Rightarrow> string" where
  "join sep [] = []"
| "join sep [x] = x"
| "join sep (x # y # ys) = x @ sep @ join sep (y # ys)"

subsection \<open>Values, errors and coercion to string\<close>

text \<open>
  A thrown \<open>Error\<close> object, by the two properties the handler reads.
\<close>

datatype js_error = JsError (err_name: string) (err_message: string)

text \<open>
  A value produced by \<open>JSON.parse\<close>. A number is carried by the text that
  \<open>String\<close> gives for it (so \<open>0\<close> and \<open>-0\<close> are both \<open>JNum ''0''\<close>): the program
  only coerces numbers to strings and tests their truthiness. An object is the list of
  its members in the order of the text; of two members with one key the later one stands.
\<close>

datatype json =
    JNull
  | JBool bool
  | JNum string
  | JStr string
  | JArr "json list"
  | JObj "(string \<times> json) list"

text \<open>
  Property access \<open>a?.k\<close> for a key \<open>k\<close> that no prototype defines (\<open>variant\<close>,
  \<open>animalName\<close>, \<open>urlImage\<close>): \<open>None\<close> is \<open>undefined\<close>.
\<close>

fun getProp :: "json \<Rightarrow> string \<Rightarrow> json option" where
  "getProp (JObj kvs) k = map_of (rev kvs) k"
| "getProp _ k = None"

fun truthy :: "json \<Rightarrow> bool" where
  "truthy JNull = False"
| "truthy (JBool b) = b"
| "truthy (JNum s) = (s \<noteq> ''0'')"
| "truthy (JStr s) = (s \<noteq> '''')"
| "truthy (JArr xs) = True"
| "truthy (JObj kvs) = True"

definition cannotConvert :: js_error where
  "cannotConvert = JsError ''TypeError'' ''Cannot convert object to primitive value''"

text \<open>
  \<open>String(v)\<close>. An array joins the strings of its elements with commas, \<open>null\<close>
  elements giving the empty string. A plain object gives \<open>[object Object]\<close> through
  \<open>Object.prototype.toString\<close>, unless a member of its own named \<open>toString\<close> shadows that
  method with a value that cannot be called, in which case the coercion throws.
\<close>

fun String_json :: "json \<Rightarrow> js_error + string"
  and elemStrings :: "json list \<Rightarrow> js_error + string list" where
  "String_json JNull = Inr ''null''"
| "String_json (JBool b) = Inr (if b then ''true'' else ''false'')"
| "String_json (JNum s) = Inr s"
| "String_json (JStr s) = Inr s"
| "String_json (JArr xs) =
     (case elemStrings xs of Inl e \<Rightarrow> Inl e | Inr ss \<Rightarrow> Inr (join '','' ss))"
| "String_json (JObj kvs) =
     (if ''toString'' \<in> set (map fst kvs) then Inl cannotConvert
      else Inr ''[object Object]'')"
| "elemStrings [] = Inr []"
| "elemStrings (x # xs) =
     (case (if x = JNull then Inr '''' else String_json x) of
        Inl e \<Rightarrow> Inl e
      | Inr s \<Rightarrow> (case elemStrings xs of Inl e \<Rightarrow> Inl e | Inr ss \<Rightarrow> Inr (s # ss)))"

text \<open>A template placeholder \<open>${v}\<close>: \<open>undefined\<close> is written as the word itself.\<close>

fun template :: "json option \<Rightarrow> js_error + string" where
  "template None = Inr ''undefined''"
| "template (Some v) = String_json v"

text \<open>
  Case-insensitive equality (line 28): both arguments go through \<open>String\<close>. A string of
  the program is the value \<open>JStr\<close>.
\<close>

definition eqCi :: "json \<Rightarrow> json \<Rightarrow> js_error + bool" where
  "eqCi a b =
     (case String_json a of
        Inl e \<Rightarrow> Inl e
      | Inr sa \<Rightarrow>
          (case String_json b of
             Inl e \<Rightarrow> Inl e
           | Inr sb \<Rightarrow> Inr (toLowerCase sa = toLowerCase sb)))"

text \<open>
  \<open>Array.prototype.find\<close> with a callback that may throw: the elements are tried in
  order, and the first one to throw ends the search with that error.
\<close>

fun find_js :: "('a \<Rightarrow> js_error + bool) \<Rightarrow> 'a list \<Rightarrow> js_error + 'a option" where
  "find_js p [] = Inr None"
| "find_js p (x # xs) =
     (case p x of
        Inl e \<Rightarrow> Inl e
      | Inr b \<Rightarrow> (if b then Inr (Some x) else find_js p xs))"

subsection \<open>Random colour (line 31)\<close>

text \<open>
  \<open>u\<close> is the value of \<open>Math.random()\<close>, which the runtime draws from \<open>[0, 1)\<close>. An
  index outside the array reads \<open>undefined\<close>, here \<open>None\<close>.
\<close>

definition getRandomColor :: "real \<Rightarrow> color option" where
  "getRandomColor u =
     (let i = \<lfloor>u * real (length colors)\<rfloor>
      in if 0 \<le> i \<and> i < int (length colors) then Some (colors ! nat i) else None)"

subsection \<open>Responses (lines 34 to 43)\<close>

record response =
  status :: nat
  contentType :: string
  body :: string

definition sendHtml :: "string \<Rightarrow> nat \<Rightarrow> response" where
  "sendHtml html st = \<lparr>status = st, contentType = ''text/html; charset=utf-8'', body = html\<rparr>"

definition sendText :: "string \<Rightarrow> nat \<Rightarrow> response" where
  "sendText txt st = \<lparr>status = st, contentType = ''text/plain; charset=utf-8'', body = txt\<rparr>"

subsection \<open>The page template (lines 46 to 67)\<close>

definition page :: "string \<Rightarrow> string \<Rightarrow> string" where
  \<open>page title html =
     ''<!doctype html>\<newline>'' @
     ''  <html lang="es">\<newline>'' @
     ''    <head>\<newline>'' @
     ''      <meta charset="utf-8" />\<newline>'' @
     ''      <title>'' @
     title @
     ''</title>\<newline>'' @
     ''      <meta name="viewport" content="width=device-width, initial-scale=1" />\<newline>'' @
     ''      <style>\<newline>'' @
     ''        :root{color-scheme: light dark}\<newline>'' @
     ''        body{font-family: ui-sans-serif, system-ui, -apple-system, Segoe UI, Roboto, Ubuntu, Cantarell, Noto Sans, Arial; margin:2rem; line-height:1.55;}\<newline>'' @
     ''        a{color:#0F52BA; text-decoration:none}\<newline>'' @
     ''        a:hover{text-decoration:underline}\<newline>'' @
     ''        ul{padding-left:1.2rem}\<newline>'' @
     ''        code,kbd{background:#0001; padding:.15rem .35rem; border-radius:4px}\<newline>'' @
     ''        .muted{color:#0008}\<newline>'' @
     ''        .swatch{display:inline-block; width:1.1rem; height:1.1rem; border-radius:4px; vertical-align:middle; margin-right:.5rem; border:1px solid #0001;}\<newline>'' @
     ''        img{max-width:100%; height:auto; border-radius:8px; box-shadow:0 2px 10px #0002}\<newline>'' @
     ''      </style>\<newline>'' @
     ''    </head>\<newline>'' @
     ''    <body>'' @
     html @
     ''</body>\<newline>'' @
     ''  </html>''\<close>

subsection \<open>The animal lookup (lines 70 to 76)\<close>

text \<open>
  What \<open>fs.readFile\<close> followed by \<open>JSON.parse\<close> comes to on the animals file: either
  of them throws, or the text parses to a value.
\<close>

datatype file_state = ReadFails js_error | ParseFails js_error | Parses json

text \<open>
  The callback \<open>a => a?.variant && eqCi(a.variant, variant)\<close>, as the truthiness of
  its result.
\<close>

definition variantMatches :: "string \<Rightarrow> json \<Rightarrow> js_error + bool" where
  "variantMatches v a =
     (case getProp a ''variant'' of
        None \<Rightarrow> Inr False
      | Some x \<Rightarrow> (if truthy x then eqCi x (JStr v) else Inr False))"

fun isArray :: "json \<Rightarrow> bool" where
  "isArray (JArr xs) = True"
| "isArray _ = False"

definition findAnimalByVariant :: "file_state \<Rightarrow> string \<Rightarrow> js_error + json option" where
  "findAnimalByVariant file v =
     (case file of
        ReadFails e \<Rightarrow> Inl e
      | ParseFails e \<Rightarrow> Inl e
      | Parses animals \<Rightarrow>
          (if \<not> isArray animals then Inr None
           else (case animals of
                   JArr xs \<Rightarrow> find_js (variantMatches v) xs
                 | _ \<Rightarrow> Inr None)))"

subsection \<open>The request and its query\<close>

text \<open>
  A value of the parsed query object: a string for a key given once, an array of
  strings for a key given several times.
\<close>

datatype qvalue = QString string | QArray "string list"

fun String_q :: "qvalue \<Rightarrow> string" where
  "String_q (QString s) = s"
| "String_q (QArray ss) = join '','' ss"



text \<open>
  The request as the handler sees it after \<open>url.parse(req.url, true)\<close> (line 86): the
  method (\<open>req.method\<close>), the path name (\<open>None\<close> is \<open>null\<close>) and the query object.
\<close>

record request =
  req_method :: string
  pathname :: "string option"
  query :: "string \<rightharpoonup> qvalue"

record env =
  animalsFile :: file_state
  mathRandom :: real

text \<open>
  The normalisation of lines 109 and 153:
  \<open>query?.variant != null ? String(query.variant).trim() : ''\<close>.
\<close>

definition queryVariant :: "(string \<rightharpoonup> qvalue) \<Rightarrow> string" where
  "queryVariant q = (case q ''variant'' of None \<Rightarrow> '''' | Some x \<Rightarrow> trim (String_q x))"

subsection \<open>\<open>encodeURIComponent\<close>, on bytes\<close>

definition unreserved :: "char \<Rightarrow> bool" where
  "unreserved c \<longleftrightarrow>
     c \<in> set (''ABCDEFGHIJKLMNOPQRSTUVWXYZabcdefghijklmnopqrstuvwxyz0123456789-_.!~*()''
              @ [CHR 0x27])"

definition hexDigit :: "nat \<Rightarrow> char" where
  "hexDigit n = ''0123456789ABCDEF'' ! (n mod 16)"

definition encodeByte :: "char \<Rightarrow> string" where
  "encodeByte c =
     (if unreserved c then [c]
      else [CHR ''%'', hexDigit (of_char c div 16), hexDigit (of_char c mod 16)])"

definition encodeURIComponent :: "string \<Rightarrow> string" where
  "encodeURIComponent s = concat (map encodeByte s)"

subsection \<open>The bodies the handler writes (lines 90 to 208)\<close>

definition welcomeBody :: string where
  \<open>welcomeBody =
     ''\<newline>'' @
     ''          <h1>'' @
     [CHR 0xF0, CHR 0x9F, CHR 0x91, CHR 0x8B] @
     '' Bienvenidos al servidor de colores de NetMind</h1>\<newline>'' @
     ''          <p>Rutas disponibles:</p>\<newline>'' @
     ''          <ul>\<newline>'' @
     ''            <li><code>/color</code> '' @
     [CHR 0xE2, CHR 0x80, CHR 0x94] @
     '' Devuelve el <strong>primer</strong> color del array (texto plano).</li>\<newline>'' @
     ''            <li><code>/color?variant=Vermillion</code> '' @
     [CHR 0xE2, CHR 0x80, CHR 0x94] @
     '' Devuelve el color indicado; si no existe, uno <em>aleatorio</em>.</li>\<newline>'' @
     ''            <li><code>/get-colors</code> '' @
     [CHR 0xE2, CHR 0x80, CHR 0x94] @
     '' Lista HTML de colores (clicables).</li>\<newline>'' @
     ''            <li><code>/get-animal?variant=Vermillion</code> '' @
     [CHR 0xE2, CHR 0x80, CHR 0x94] @
     '' Imagen de un animal relacionado con el color.</li>\<newline>'' @
     ''          </ul>\<newline>'' @
     ''        ''\<close>

definition colorFragment :: "string \<Rightarrow> string" where
  \<open>colorFragment h = ''<p style="color:'' @ h @ ''">'' @ h @ ''</p>''\<close>

definition colorItem :: "color \<Rightarrow> string" where
  \<open>colorItem c =
     ''<li>\<newline>'' @
     ''                <a href="/color?variant='' @
     encodeURIComponent (variant c) @
     ''">\<newline>'' @
     ''                  <span class="swatch" style="background:'' @
     hex c @
     ''"></span>'' @
     variant c @
     ''\<newline>'' @
     ''                  <span class="muted">'' @
     hex c @
     ''</span>\<newline>'' @
     ''                </a>\<newline>'' @
     ''                &nbsp;'' @
     [CHR 0xE2, CHR 0x80, CHR 0x94] @
     '' <a class="muted" href="/get-animal?variant='' @
     encodeURIComponent (variant c) @
     ''">ver animal</a>\<newline>'' @
     ''              </li>''\<close>

definition colorsBody :: "string \<Rightarrow> string" where
  \<open>colorsBody items =
     ''\<newline>'' @
     ''            <h1>Colores disponibles</h1>\<newline>'' @
     ''            <p>Haz clic en un color para solicitarlo al servidor.</p>\<newline>'' @
     ''            <ul>'' @
     items @
     ''</ul>\<newline>'' @
     ''            <p class="muted">Tambi'' @
     [CHR 0xC3, CHR 0xA9] @
     ''n puedes usar <kbd>/color</kbd> o <kbd>/color?variant=Vermillion</kbd>.</p>\<newline>'' @
     ''            <p><a href="/">Volver</a></p>\<newline>'' @
     ''            ''\<close>

definition missingTitle :: string where
  "missingTitle = ''Falta par'' @ [CHR 0xC3, CHR 0xA1] @ ''metro''"

definition missingBody :: string where
  \<open>missingBody =
     ''\<newline>'' @
     ''                <h1>Falta el par'' @
     [CHR 0xC3, CHR 0xA1] @
     ''metro <code>variant</code></h1>\<newline>'' @
     ''                <p>Ejemplo: <code>/get-animal?variant=Vermillion</code></p>\<newline>'' @
     ''                <p><a href="/">Volver</a></p>''\<close>

definition notFoundBody :: "string \<Rightarrow> string" where
  \<open>notFoundBody v =
     ''\<newline>'' @
     ''                    <h1>Animal no encontrado para <code>'' @
     v @
     ''</code></h1>\<newline>'' @
     ''                    <p>Prueba con otra variante desde <a href="/get-colors">la lista de colores</a>.</p>\<newline>'' @
     ''                    <p><a href="/">Volver</a></p>''\<close>

definition animalTitle :: "string \<Rightarrow> string \<Rightarrow> string" where
  "animalTitle animalName v = animalName @ '' ('' @ v @ '')''"

definition animalBody :: "string \<Rightarrow> string \<Rightarrow> string \<Rightarrow> string" where
  \<open>animalBody animalName v urlImage =
     ''\<newline>'' @
     ''                <h1>'' @
     animalName @
     '' <small class="muted">('' @
     v @
     '')</small></h1>\<newline>'' @
     ''                <p><img width="300" src="'' @
     urlImage @
     ''" alt="'' @
     animalName @
     ''"></p>\<newline>'' @
     ''                <p><a href="/">Volver</a></p>''\<close>

text \<open>
  \<open>String(err)\<close> for an error object is \<open>Error.prototype.toString\<close>; line 194 echoes
  \<open>String(err && err.message ? err.message : err)\<close>.
\<close>

definition String_error :: "js_error \<Rightarrow> string" where
  "String_error err =
     (if err_name err = '''' then err_message err
      else if err_message err = '''' then err_name err
      else err_name err @ '': '' @ err_message err)"

definition errorText :: "js_error \<Rightarrow> string" where
  "errorText err = (if err_message err \<noteq> '''' then err_message err else String_error err)"

definition errorBody :: "js_error \<Rightarrow> string" where
  \<open>errorBody err =
     ''<h1>Error cargando <code>files/animals.json</code></h1>\<newline>'' @
     ''                       <pre class="muted">'' @
     errorText err @
     ''</pre>\<newline>'' @
     ''                       <p><a href="/">Volver</a></p>''\<close>

definition fallbackBody :: string where
  \<open>fallbackBody =
     ''\<newline>'' @
     ''        <h1>404 - Ruta no encontrada</h1>\<newline>'' @
     ''        <p><a href="/">Volver</a></p>''\<close>

subsection \<open>The request handler (lines 79 to 209)\<close>

text \<open>
  The handler either writes a response or, where an exception leaves it outside the
  \<open>try\<close> block, writes none.
\<close>

datatype outcome = Responded response | Unhandled js_error

definition cannotReadHex :: js_error where
  "cannotReadHex =
     JsError ''TypeError''
       (''Cannot read properties of undefined (reading '' @ [CHR 0x27] @ ''hex'' @ [CHR 0x27] @ '')'')"

text \<open>Lines 107 to 120.\<close>

definition colorRoute :: "(string \<rightharpoonup> qvalue) \<Rightarrow> real \<Rightarrow> outcome" where
  "colorRoute q u =
     (let v = queryVariant q in
      if v \<noteq> '''' then
        (case find_js (\<lambda>c. eqCi (JStr (variant c)) (JStr v)) colors of
           Inl e \<Rightarrow> Unhandled e
         | Inr found \<Rightarrow>
             (case (case found of Some c \<Rightarrow> Some c | None \<Rightarrow> getRandomColor u) of
                None \<Rightarrow> Unhandled cannotReadHex
              | Some chosen \<Rightarrow> Responded (sendHtml (colorFragment (hex chosen)) 200)))
      else
        (case getRandomColor u of
           None \<Rightarrow> Unhandled cannotReadHex
         | Some randomColor \<Rightarrow> Responded (sendHtml (colorFragment (hex randomColor)) 200)))"

text \<open>Lines 123 to 149.\<close>

definition colorsRoute :: response where
  "colorsRoute =
     sendHtml (page ''Colores disponibles'' (colorsBody (join ''\<newline>'' (map colorItem colors)))) 200"

text \<open>
  The \<open>try\<close> block of lines 167 to 188: \<open>Inl\<close> is the exception that reaches the
  \<open>catch\<close> clause.
\<close>

definition animalTry :: "file_state \<Rightarrow> string \<Rightarrow> js_error + response" where
  "animalTry file v =
     (case findAnimalByVariant file v of
        Inl e \<Rightarrow> Inl e
      | Inr None \<Rightarrow> Inr (sendHtml (page ''No encontrado'' (notFoundBody v)) 404)
      | Inr (Some animal) \<Rightarrow>
          (if \<not> truthy animal then Inr (sendHtml (page ''No encontrado'' (notFoundBody v)) 404)
           else
             (case template (getProp animal ''animalName'') of
                Inl e \<Rightarrow> Inl e
              | Inr animalName \<Rightarrow>
                  (case template (getProp animal ''variant'') of
                     Inl e \<Rightarrow> Inl e
                   | Inr animalVariant \<Rightarrow>
                       (case template (getProp animal ''urlImage'') of
                          Inl e \<Rightarrow> Inl e
                        | Inr urlImage \<Rightarrow>
                            Inr (sendHtml
                                  (page (animalTitle animalName animalVariant)
                                     (animalBody animalName animalVariant urlImage))
                                  200))))))"

text \<open>Lines 152 to 199.\<close>

definition animalRoute :: "(string \<rightharpoonup> qvalue) \<Rightarrow> file_state \<Rightarrow> response" where
  "animalRoute q file =
     (let v = queryVariant q in
      if v = '''' then sendHtml (page missingTitle missingBody) 400
      else
        (case animalTry file v of
           Inr r \<Rightarrow> r
         | Inl err \<Rightarrow> sendHtml (page ''Error del servidor'' (errorBody err)) 500))"

definition requestHandler :: "request \<Rightarrow> env \<Rightarrow> outcome" where
  "requestHandler req e =
     (if req_method req \<noteq> ''GET'' then Responded (sendText ''Method Not Allowed'' 405)
      else if pathname req = Some ''/'' then
        Responded (sendHtml (page ''Bienvenidos'' welcomeBody) 200)
      else if pathname req = Some ''/color'' then colorRoute (query req) (mathRandom e)
      else if pathname req = Some ''/get-colors'' then Responded colorsRoute
      else if pathname req = Some ''/get-animal'' then
        Responded (animalRoute (query req) (animalsFile e))
      else Responded (sendHtml (page ''404'' fallbackBody) 404))"

section \<open>Auxiliary facts\<close>

subsection \<open>Comparison and search\<close>

lemma eqCi_JStr: "eqCi (JStr a) (JStr b) = Inr (toLowerCase a = toLowerCase b)"
  by (simp add: eqCi_def)

lemma find_js_total:
  "find_js (\<lambda>x. Inr (P x)) xs = Inr (List.find P xs)"
  by (induction xs) simp_all

lemma find_js_colors:
  "find_js (\<lambda>c. eqCi (JStr (variant c)) (JStr v)) cs =
     Inr (List.find (\<lambda>c. toLowerCase (variant c) = toLowerCase v) cs)"
  by (simp add: eqCi_JStr find_js_total)

lemma find_Some_mem: "List.find P xs = Some x \<Longrightarrow> x \<in> set xs"
  by (auto simp: find_Some_iff)



lemma lower_Vermillion: "toLowerCase ''Vermillion'' = ''vermillion''"
  by (simp add: toLowerCase_def lowerChar_def)

lemma lower_Forest: "toLowerCase ''Forest'' = ''forest''"
  by (simp add: toLowerCase_def lowerChar_def)

lemma lower_Navy: "toLowerCase ''Navy'' = ''navy''"
  by (simp add: toLowerCase_def lowerChar_def)

lemma find_navy:
  "List.find (\<lambda>c. toLowerCase (variant c) = ''navy'') colors =
     Some \<lparr>variant = ''Navy'', hex = ''#000080''\<rparr>"
  by (simp add: colors_def lower_Vermillion lower_Forest lower_Navy)


subsection \<open>Trimming\<close>

lemma lowerChar_whitespace:
  assumes "isWhiteSpace c"
  shows "lowerChar c = c"
proof -
  from assms consider "c = CHR 0x09" | "c = CHR 0x0A" | "c = CHR 0x0B"
    | "c = CHR 0x0C" | "c = CHR 0x0D" | "c = CHR 0x20"
    by (auto simp: isWhiteSpace_def)
  then show ?thesis
    by cases (simp_all add: lowerChar_def)
qed


lemma trim_no_edges:
  assumes "w \<noteq> []" and "\<not> isWhiteSpace (hd w)" and "\<not> isWhiteSpace (last w)"
  shows "trim w = w"
proof -
  from assms(1,2) have a: "dropWhile isWhiteSpace w = w"
    by (cases w) simp_all
  from assms(1,3) have "dropWhile isWhiteSpace (rev w) = rev w"
    by (cases "rev w") (simp_all add: last_rev [symmetric] hd_rev)
  with a show ?thesis by (simp add: trim_def)
qed

lemma navy_untrimmed:
  assumes "toLowerCase v = ''navy''"
  shows "trim v = v \<and> v \<noteq> ''''"
proof -
  from assms obtain a b c d where v: "v = [a, b, c, d]"
    and a: "lowerChar a = CHR ''n''" and d: "lowerChar d = CHR ''y''"
    by (auto simp: toLowerCase_def map_eq_Cons_conv)
  have "\<not> isWhiteSpace a" using a lowerChar_whitespace [of a]
    by (auto simp: isWhiteSpace_def)
  moreover have "\<not> isWhiteSpace d" using d lowerChar_whitespace [of d]
    by (auto simp: isWhiteSpace_def)
  ultimately have "trim v = v" using v by (intro trim_no_edges) simp_all
  then show ?thesis using v by simp
qed

subsection \<open>The random draw\<close>

lemma length_colors: "length colors = 15"
  by (simp add: colors_def)

lemma getRandomColor_in_registry:
  assumes "0 \<le> u" and "u < 1"
  shows "\<exists>c \<in> set colors. getRandomColor u = Some c"
proof -
  let ?i = "\<lfloor>u * real (length colors)\<rfloor>"
  have lo: "0 \<le> ?i" using assms(1) by simp
  have "u * real (length colors) < real (length colors)"
    using assms(2) by (simp add: length_colors)
  then have hi: "?i < int (length colors)"
    by (simp add: floor_less_iff)
  from lo hi have "nat ?i < length colors" by linarith
  then have "colors ! nat ?i \<in> set colors" by (rule nth_mem)
  moreover have "getRandomColor u = Some (colors ! nat ?i)"
    using lo hi by (simp add: getRandomColor_def Let_def)
  ultimately show ?thesis by blast
qed


lemma colorRoute_ok:
  assumes "0 \<le> u" and "u < 1"
  shows "\<exists>c \<in> set colors. colorRoute q u = Responded (sendHtml (colorFragment (hex c)) 200)"
proof -
  from getRandomColor_in_registry [OF assms] obtain r
    where r: "r \<in> set colors" "getRandomColor u = Some r" by blast
  show ?thesis
  proof (cases "queryVariant q = ''''")
    case True
    then show ?thesis using r by (auto simp: colorRoute_def)
  next
    case False
    show ?thesis
    proof (cases "List.find (\<lambda>c. toLowerCase (variant c) = toLowerCase (queryVariant q)) colors")
      case None
      then show ?thesis using False r by (auto simp: colorRoute_def find_js_colors)
    next
      case (Some c)
      then have "c \<in> set colors" by (rule find_Some_mem)
      then show ?thesis using False Some by (auto simp: colorRoute_def find_js_colors)
    qed
  qed
qed

subsection \<open>The query object\<close>



subsection \<open>The animal lookup and its route\<close>








subsection \<open>Substrings of the pages\<close>






section \<open>The claims\<close>

subsection \<open>C1: the statuses of \<open>/get-animal\<close>\<close>




subsection \<open>C2: \<open>/color\<close> always answers with a registry colour\<close>

text \<open>
  C2. Every GET request to \<open>/color\<close>, whatever its query, is answered with status 200
  and the body \<open><p style="color:HEX">HEX</p>\<close> for the hex code of some entry of the
  registry; no error response is produced. The value \<open>Math.random()\<close> returns lies in
  \<open>[0, 1)\<close>.
\<close>

theorem color_always_ok:
  assumes "req_method req = ''GET''" and "pathname req = Some ''/color''"
    and "0 \<le> mathRandom e" and "mathRandom e < 1"
  shows \<open>\<exists>c \<in> set colors.
           requestHandler req e =
             Responded \<lparr>status = 200, contentType = ''text/html; charset=utf-8'',
                        body = ''<p style="color:'' @ hex c @ ''">'' @ hex c @ ''</p>''\<rparr>\<close>
  using colorRoute_ok [OF assms(3,4), of "query req"] assms(1,2)
  by (simp add: requestHandler_def sendHtml_def colorFragment_def)

theorem color_always_ok_witness:
  \<open>\<exists>c \<in> set colors.
     requestHandler
       \<lparr>req_method = ''GET'', pathname = Some ''/color'',
        query = [''variant'' \<mapsto> QString ''DoesNotExist'']\<rparr>
       \<lparr>animalsFile = Parses (JArr []), mathRandom = 1 / 2\<rparr> =
     Responded \<lparr>status = 200, contentType = ''text/html; charset=utf-8'',
                body = ''<p style="color:'' @ hex c @ ''">'' @ hex c @ ''</p>''\<rparr>\<close>
  using color_always_ok
    [of "\<lparr>req_method = ''GET'', pathname = Some ''/color'',
          query = [''variant'' \<mapsto> QString ''DoesNotExist'']\<rparr>"
        "\<lparr>animalsFile = Parses (JArr []), mathRandom = 1 / 2\<rparr>"]
  by simp

subsection \<open>C3: Navy\<close>

text \<open>
  C3. A GET request to \<open>/color\<close> whose \<open>variant\<close> equals \<open>Navy\<close> under \<open>eqCi\<close> is
  answered with the hex code \<open>#000080\<close>, whatever the random draw.
\<close>

theorem navy_fixed_hex:
  assumes "req_method req = ''GET''" and "pathname req = Some ''/color''"
    and "query req ''variant'' = Some (QString v)"
    and "eqCi (JStr ''Navy'') (JStr v) = Inr True"
  shows \<open>requestHandler req e =
           Responded \<lparr>status = 200, contentType = ''text/html; charset=utf-8'',
                      body = ''<p style="color:#000080">#000080</p>''\<rparr>\<close>
proof -
  from assms(4) have low: "toLowerCase v = ''navy''"
    by (simp add: eqCi_JStr lower_Navy)
  from navy_untrimmed [OF low] assms(3) have qv: "queryVariant (query req) = v" "v \<noteq> ''''"
    by (simp_all add: queryVariant_def)
  have "colorRoute (query req) (mathRandom e) =
          Responded (sendHtml (colorFragment ''#000080'') 200)"
    using qv low by (simp add: colorRoute_def find_js_colors find_navy)
  then show ?thesis using assms(1,2)
    by (simp add: requestHandler_def sendHtml_def colorFragment_def)
qed

theorem navy_fixed_hex_witness:
  \<open>eqCi (JStr ''Navy'') (JStr ''nAvY'') = Inr True \<and>
   requestHandler
     \<lparr>req_method = ''GET'', pathname = Some ''/color'', query = [''variant'' \<mapsto> QString ''nAvY'']\<rparr>
     \<lparr>animalsFile = ReadFails (JsError ''Error'' ''ENOENT''), mathRandom = 0\<rparr> =
   Responded \<lparr>status = 200, contentType = ''text/html; charset=utf-8'',
              body = ''<p style="color:#000080">#000080</p>''\<rparr>\<close>
proof -
  have h: "eqCi (JStr ''Navy'') (JStr ''nAvY'') = Inr True"
    by (simp add: eqCi_def toLowerCase_def lowerChar_def)
  show ?thesis
    using h navy_fixed_hex
      [of "\<lparr>req_method = ''GET'', pathname = Some ''/color'',
            query = [''variant'' \<mapsto> QString ''nAvY'']\<rparr>" "''nAvY''", OF _ _ _ h]
    by simp
qed

subsection \<open>C4: methods other than GET\<close>

text \<open>
  C4. A request whose method is not GET is answered with status 405 and the plain text
  \<open>Method Not Allowed\<close>. The response depends on nothing else: not on the path, the
  query, the animals file or the random draw, so no route has run.
\<close>

theorem non_get_is_405:
  assumes "req_method req \<noteq> ''GET''"
  shows "requestHandler req e =
           Responded \<lparr>status = 405, contentType = ''text/plain; charset=utf-8'',
                      body = ''Method Not Allowed''\<rparr>"
  using assms by (simp add: requestHandler_def sendText_def)

theorem non_get_is_405_witness:
  "''POST'' \<noteq> ''GET'' \<and>
   requestHandler
     \<lparr>req_method = ''POST'', pathname = Some ''/get-animal'', query = [''variant'' \<mapsto> QString ''Navy'']\<rparr>
     \<lparr>animalsFile = ReadFails (JsError ''Error'' ''ENOENT''), mathRandom = 0\<rparr> =
   Responded \<lparr>status = 405, contentType = ''text/plain; charset=utf-8'',
              body = ''Method Not Allowed''\<rparr>"
  using non_get_is_405
    [of "\<lparr>req_method = ''POST'', pathname = Some ''/get-animal'',
          query = [''variant'' \<mapsto> QString ''Navy'']\<rparr>"
        "\<lparr>animalsFile = ReadFails (JsError ''Error'' ''ENOENT''), mathRandom = 0\<rparr>"]
  by simp

subsection \<open>C5: an animals file that is not an array\<close>



subsection \<open>C6: the first match wins\<close>



subsection \<open>C7: records with missing fields\<close>




subsection \<open>C8: \<open>/get-animal\<close> is a function of the variant and the file\<close>

text \<open>
  C8. Two GET requests to \<open>/get-animal\<close> with the same \<open>variant\<close>, evaluated against
  the same outcome of reading and parsing the animals file, get the same response,
  whatever the rest of the query and the random draw.
\<close>

theorem get_animal_deterministic:
  assumes "req_method r1 = ''GET''" and "req_method r2 = ''GET''"
    and "pathname r1 = Some ''/get-animal''" and "pathname r2 = Some ''/get-animal''"
    and "query r1 ''variant'' = query r2 ''variant''"
    and "animalsFile e1 = animalsFile e2"
  shows "requestHandler r1 e1 = requestHandler r2 e2"
  using assms by (simp add: requestHandler_def animalRoute_def queryVariant_def)

theorem get_animal_deterministic_witness:
  "requestHandler
     \<lparr>req_method = ''GET'', pathname = Some ''/get-animal'',
      query = [''variant'' \<mapsto> QString ''Navy'', ''a'' \<mapsto> QString ''1'']\<rparr>
     \<lparr>animalsFile = Parses (JArr [JObj [(''variant'', JStr ''navy'')]]), mathRandom = 0\<rparr> =
   requestHandler
     \<lparr>req_method = ''GET'', pathname = Some ''/get-animal'', query = [''variant'' \<mapsto> QString ''Navy'']\<rparr>
     \<lparr>animalsFile = Parses (JArr [JObj [(''variant'', JStr ''navy'')]]), mathRandom = 1 / 2\<rparr>"
  using get_animal_deterministic
    [of "\<lparr>req_method = ''GET'', pathname = Some ''/get-animal'',
          query = [''variant'' \<mapsto> QString ''Navy'', ''a'' \<mapsto> QString ''1'']\<rparr>"
        "\<lparr>req_method = ''GET'', pathname = Some ''/get-animal'',
          query = [''variant'' \<mapsto> QString ''Navy'']\<rparr>"
        "\<lparr>animalsFile = Parses (JArr [JObj [(''variant'', JStr ''navy'')]]), mathRandom = 0\<rparr>"
        "\<lparr>animalsFile = Parses (JArr [JObj [(''variant'', JStr ''navy'')]]), mathRandom = 1 / 2\<rparr>"]
  by simp

subsection \<open>C9: a blank variant\<close>



subsection \<open>C10: a repeated variant\<close>



end
